theory Spec2Isabelle
  imports Main
begin

section \<open>Data model of request.go\<close>

text \<open>
  Go strings are byte sequences and \<open>len\<close>, slicing, \<open>strings.HasPrefix\<close> and
  \<open>strings.HasSuffix\<close> all work on bytes, so a Go string is a \<^typ>\<open>string\<close> (a list of
  8-bit characters) here.

  A run-time panic of the Go code is a value of \<open>panic\<close>; a function that can panic returns
  \<open>panic + 'a\<close> with \<open>Inl\<close> for the panic.
\<close>

datatype panic =
    SliceBoundsOutOfRange nat nat
  | NilPointerDereference
  | InterfaceConversion

text \<open>\<open>s[i:]\<close>: Go panics unless \<open>i \<le> len(s)\<close>; the two numbers are the index and the length.\<close>

definition slice_from :: "string \<Rightarrow> nat \<Rightarrow> panic + string" where
  "slice_from s i =
     (if i \<le> length s then Inr (drop i s) else Inl (SliceBoundsOutOfRange i (length s)))"

definition HasPrefix :: "string \<Rightarrow> string \<Rightarrow> bool" where
  "HasPrefix s prefix \<longleftrightarrow> length prefix \<le> length s \<and> take (length prefix) s = prefix"

definition HasSuffix :: "string \<Rightarrow> string \<Rightarrow> bool" where
  "HasSuffix s suffix \<longleftrightarrow>
     length suffix \<le> length s \<and> drop (length s - length suffix) s = suffix"

subsection \<open>Types declared elsewhere in the package\<close>

text \<open>
  \<open>HTTPMethod\<close>, \<open>GET\<close>, \<open>URI\<close>, \<open>NewURI\<close>, the interfaces \<open>IHeader\<close>, \<open>IQuery\<close>,
  \<open>IBodyParser\<close>, \<open>IContextBuilder\<close>, the type \<open>Context\<close>, \<open>NewContextBuilder\<close> and
  \<open>dumpBody\<close> are declared in files of the package other than request.go.

  A value of an interface type is represented by what its parameterless methods return:
  a query set by its \<open>String()\<close>, a body parser by its \<open>Parse()\<close> bytes and its
  \<open>ContentType()\<close>, a context builder by the context its \<open>Build()\<close> yields. These methods
  are taken to be readers: calling one changes nothing. A nil interface value is \<open>None\<close>.
\<close>

text \<open>Modelled from the spec: \<open>HTTPMethod\<close> is not in request.go. request.go compares a
  method with the empty string, so it is a string type, and \<open>String()\<close> is taken to return
  that string.\<close>

type_synonym HTTPMethod = string

text \<open>Modelled from the spec: the constant \<open>GET\<close> is not in request.go.\<close>

definition GET :: HTTPMethod where
  "GET = ''GET''"

text \<open>Modelled from the spec: \<open>URI\<close> and \<open>NewURI\<close> are not in request.go. Section 4.1 and
  the query-append law of section 8 identify the resolved URI with the string it is built
  from.\<close>

datatype URI = NewURI string

fun URI_String :: "URI \<Rightarrow> string" where
  "URI_String (NewURI s) = s"

text \<open>\<open>time.Duration\<close> counts nanoseconds.\<close>

type_synonym Duration = int

definition Second :: Duration where
  "Second = 1000000000"

text \<open>Modelled from the spec: \<open>Context\<close>, \<open>IContextBuilder\<close> and \<open>NewContextBuilder\<close> are
  not in request.go. Section 3: a context builder has a single configuration option, the
  timeout, and section 4.5: the context \<open>Build()\<close> returns is cancelled after that duration.
  A context is described by its timeout.\<close>

datatype ctx = WithTimeout Duration

record Context =
  Ctx :: ctx

record IContextBuilder =
  Build :: Context

definition NewContextBuilder :: "Duration \<Rightarrow> IContextBuilder" where
  "NewContextBuilder d = \<lparr>Build = \<lparr>Ctx = WithTimeout d\<rparr>\<rparr>"

record IQuery =
  String :: string

record IBodyParser =
  Parse :: string
  ContentType :: string

text \<open>Modelled from the spec: \<open>dumpBody\<close> is not in request.go. Section 4.4: the default,
  when no parser is configured, is an empty body and an empty content-type.\<close>

definition dumpBody :: IBodyParser where
  "dumpBody = \<lparr>Parse = [], ContentType = []\<rparr>"

text \<open>
  \<open>Properties().Each\<close> hands the callback a key and a value of type \<open>any\<close>; request.go
  asserts the value to be a string. A header set is the list of its properties in the order
  \<open>Each\<close> enumerates them. Header sets are shared mutable objects (\<open>MergeHeader\<close> either
  adopts the caller's object or mutates the one it has), so they live in a store and a
  \<open>Request\<close> holds a reference.
\<close>

datatype any = AnyString string | AnyInt int

type_synonym IHeader = "(string \<times> any) list"

type_synonym ref = nat

type_synonym store = "ref \<Rightarrow> IHeader"

text \<open>Modelled from the spec: \<open>IHeader.Merge\<close> is not in request.go. Section 4.2:
  \<open>Merge(other)\<close> folds every pair of \<open>other\<close> into the receiver and keeps the receiver's
  own entries.\<close>

definition Merge :: "IHeader \<Rightarrow> IHeader \<Rightarrow> IHeader" where
  "Merge h other = h @ other"

record Cookie =
  Name :: string
  Value :: string

subsection \<open>The Request struct\<close>

record Request =
  path :: string
  URI :: URI
  Method :: HTTPMethod
  Header :: "ref option"
  Query :: "IQuery option"
  BodyParser :: "IBodyParser option"
  contextBuilder :: "IContextBuilder option"
  Cookies :: "Cookie list"

type_synonym OptionRequest = "Request \<Rightarrow> Request"

definition WithMethod :: "HTTPMethod \<Rightarrow> OptionRequest" where
  "WithMethod method = (\<lambda>request. request\<lparr>Method := method\<rparr>)"

definition WithBody :: "IBodyParser option \<Rightarrow> OptionRequest" where
  "WithBody bodyParser = (\<lambda>request. request\<lparr>BodyParser := bodyParser\<rparr>)"

definition WithQuery :: "IQuery option \<Rightarrow> OptionRequest" where
  "WithQuery query = (\<lambda>request. request\<lparr>Query := query\<rparr>)"

definition WithHeader :: "ref option \<Rightarrow> OptionRequest" where
  "WithHeader header = (\<lambda>request. request\<lparr>Header := header\<rparr>)"

definition WithContextBuilder :: "IContextBuilder option \<Rightarrow> OptionRequest" where
  "WithContextBuilder cb = (\<lambda>request. request\<lparr>contextBuilder := cb\<rparr>)"

definition WithCookies :: "Cookie list \<Rightarrow> OptionRequest" where
  "WithCookies cookies = (\<lambda>request. request\<lparr>Cookies := cookies\<rparr>)"

text \<open>\<open>&Request{path: path}\<close>: every other field has its zero value.\<close>

definition zero_Request :: "string \<Rightarrow> Request" where
  "zero_Request p =
     \<lparr>path = p, URI = NewURI [], Method = [], Header = None, Query = None,
      BodyParser = None, contextBuilder = None, Cookies = []\<rparr>"

definition NewRequest :: "string \<Rightarrow> OptionRequest list \<Rightarrow> Request" where
  "NewRequest p opts =
     (let r = fold (\<lambda>opt r. opt r) opts (zero_Request p);
          r = (if BodyParser r = None then r\<lparr>BodyParser := Some dumpBody\<rparr> else r);
          r = (if Method r = [] then r\<lparr>Method := GET\<rparr> else r)
      in r)"

section \<open>SetBaseUrl\<close>

text \<open>
  The first two slices are guarded by the prefix and suffix tests before them. The third,
  \<open>r.path[len(baseUrl)+1:]\<close>, is guarded only by \<open>HasPrefix(r.path, baseUrl)\<close>, which also
  holds when the two strings are equal.
\<close>

definition SetBaseUrl :: "string \<Rightarrow> Request \<Rightarrow> panic + Request" where
  "SetBaseUrl baseUrl r =
     (let p = (if HasPrefix (path r) ''/'' then drop 1 (path r) else path r);
          b = (if HasSuffix baseUrl ''/'' then take (length baseUrl - 1) baseUrl else baseUrl)
      in if HasPrefix p b
         then (case slice_from p (length b + 1) of
                 Inl e \<Rightarrow> Inl e
               | Inr p' \<Rightarrow> Inr (r\<lparr>path := b @ ''/'' @ p'\<rparr>))
         else Inr (r\<lparr>path := b @ ''/'' @ p\<rparr>))"

text \<open>Calling \<open>SetBaseUrl\<close> again on the request the first call returned.\<close>

definition SetBaseUrl_twice :: "string \<Rightarrow> Request \<Rightarrow> panic + Request" where
  "SetBaseUrl_twice baseUrl r =
     (case SetBaseUrl baseUrl r of Inl e \<Rightarrow> Inl e | Inr r' \<Rightarrow> SetBaseUrl baseUrl r')"

text \<open>
  The merge as section 4.1 words it, on the path alone: strip one leading slash from the path,
  strip one trailing slash from the base, drop a duplicated base prefix together with the
  separator after it, reassemble.
\<close>

definition strip_leading_slash :: "string \<Rightarrow> string" where
  "strip_leading_slash p = (case p of c # cs \<Rightarrow> if c = CHR ''/'' then cs else p | [] \<Rightarrow> p)"

definition strip_trailing_slash :: "string \<Rightarrow> string" where
  "strip_trailing_slash b = (if b \<noteq> [] \<and> last b = CHR ''/'' then butlast b else b)"

definition SetBaseUrl_spec :: "string \<Rightarrow> string \<Rightarrow> string" where
  "SetBaseUrl_spec baseUrl p =
     (let p1 = strip_leading_slash p;
          b = strip_trailing_slash baseUrl;
          p2 = (if HasPrefix p1 b then strip_leading_slash (drop (length b) p1) else p1)
      in b @ ''/'' @ p2)"

section \<open>MergeHeader and SetContextBuilder\<close>

text \<open>
  \<open>MergeHeader\<close> works on the pair of the request and the store of header sets:
  adopting the caller's set changes the request's reference, merging changes the object
  the request already refers to.
\<close>

definition MergeHeader :: "ref option \<Rightarrow> Request \<times> store \<Rightarrow> Request \<times> store" where
  "MergeHeader header = (\<lambda>(r, \<sigma>).
     case header of
       None \<Rightarrow> (r, \<sigma>)
     | Some h \<Rightarrow>
         (case Header r of
            None \<Rightarrow> (r\<lparr>Header := Some h\<rparr>, \<sigma>)
          | Some e \<Rightarrow> (r, \<sigma>(e := Merge (\<sigma> e) (\<sigma> h)))))"

definition SetContextBuilder :: "IContextBuilder option \<Rightarrow> Request \<Rightarrow> Request" where
  "SetContextBuilder cb r = (case cb of None \<Rightarrow> r | Some b \<Rightarrow> r\<lparr>contextBuilder := Some b\<rparr>)"

section \<open>The transport library\<close>

text \<open>
  \<open>net/http\<close> is outside the repository. A transport request is a record of what request.go
  puts into it: context, method, URL string, body bytes, the header multimap (every key
  maps to its list of values, the empty list when absent) and the cookies in the order they
  were attached. A transport response is its status code and body.
\<close>

record HttpRequest =
  req_Ctx :: ctx
  req_Method :: string
  req_URL :: string
  req_Body :: string
  req_Header :: "string \<Rightarrow> string list"
  req_Cookies :: "Cookie list"

record HttpResponse =
  StatusCode :: int
  resp_Body :: string

text \<open>
  What request.go relies on from the library is a parameter of the model:
  \<^item> \<open>CanonicalHeaderKey\<close>: \<open>Header.Add\<close>, \<open>Header.Set\<close> and \<open>Header.Get\<close> file a value
    under the canonical form of the key;
  \<^item> \<open>accepts\<close>: whether \<open>http.NewRequestWithContext\<close> builds a request for a method and a
    URL string; when it does not it returns nil and an error, and request.go discards the
    error;
  \<^item> \<open>Do\<close>: the round trip of \<open>Client.Do\<close>, a failure description or a response.
\<close>

record net_http =
  CanonicalHeaderKey :: "string \<Rightarrow> string"
  accepts :: "string \<Rightarrow> string \<Rightarrow> bool"
  Do :: "HttpRequest \<Rightarrow> string + HttpResponse"

text \<open>\<open>http.NewRequestWithContext\<close>: an empty method means GET; \<open>None\<close> is the nil request.\<close>

definition NewRequestWithContext ::
    "net_http \<Rightarrow> ctx \<Rightarrow> string \<Rightarrow> string \<Rightarrow> string \<Rightarrow> HttpRequest option" where
  "NewRequestWithContext lib c method url body =
     (let method = (if method = [] then ''GET'' else method)
      in if accepts lib method url
         then Some \<lparr>req_Ctx = c, req_Method = method, req_URL = url, req_Body = body,
                    req_Header = (\<lambda>k. []), req_Cookies = []\<rparr>
         else None)"

definition Header_Add :: "net_http \<Rightarrow> string \<Rightarrow> string \<Rightarrow> HttpRequest \<Rightarrow> HttpRequest" where
  "Header_Add lib k v req =
     req\<lparr>req_Header := (req_Header req)
            (CanonicalHeaderKey lib k := req_Header req (CanonicalHeaderKey lib k) @ [v])\<rparr>"

definition Header_Set :: "net_http \<Rightarrow> string \<Rightarrow> string \<Rightarrow> HttpRequest \<Rightarrow> HttpRequest" where
  "Header_Set lib k v req =
     req\<lparr>req_Header := (req_Header req)(CanonicalHeaderKey lib k := [v])\<rparr>"

definition Header_Values :: "net_http \<Rightarrow> HttpRequest \<Rightarrow> string \<Rightarrow> string list" where
  "Header_Values lib req k = req_Header req (CanonicalHeaderKey lib k)"

definition Header_Get :: "net_http \<Rightarrow> HttpRequest \<Rightarrow> string \<Rightarrow> string" where
  "Header_Get lib req k = (case Header_Values lib req k of [] \<Rightarrow> [] | v # vs \<Rightarrow> v)"

definition AddCookie :: "Cookie \<Rightarrow> HttpRequest \<Rightarrow> HttpRequest" where
  "AddCookie c req = req\<lparr>req_Cookies := req_Cookies req @ [c]\<rparr>"

section \<open>Assembling the transport request\<close>

text \<open>
  The three steps after the construction work on \<open>req\<close>, which is nil (\<open>None\<close>) when the
  library refused to build it. Each step that touches a nil \<open>req\<close> panics; a step with
  nothing to do does not touch it. The type assertion \<open>v.(string)\<close> panics on a value
  that is not a string. (Where \<open>req\<close> is nil and the value is not a string, the model
  reports the nil dereference; no property below depends on which of the two panics it is.)
\<close>

fun add_headers :: "net_http \<Rightarrow> IHeader \<Rightarrow> HttpRequest option \<Rightarrow> panic + HttpRequest option" where
  "add_headers lib [] req = Inr req"
| "add_headers lib ((k, v) # kvs) None = Inl NilPointerDereference"
| "add_headers lib ((k, AnyString s) # kvs) (Some req) =
     add_headers lib kvs (Some (Header_Add lib k s req))"
| "add_headers lib ((k, AnyInt i) # kvs) (Some req) = Inl InterfaceConversion"

definition set_content_type ::
    "net_http \<Rightarrow> IBodyParser \<Rightarrow> HttpRequest option \<Rightarrow> panic + HttpRequest option" where
  "set_content_type lib bp req =
     (if ContentType bp \<noteq> []
      then (case req of
              None \<Rightarrow> Inl NilPointerDereference
            | Some q \<Rightarrow> Inr (Some (Header_Set lib ''Content-Type'' (ContentType bp) q)))
      else Inr req)"

fun add_cookies :: "Cookie list \<Rightarrow> HttpRequest option \<Rightarrow> panic + HttpRequest option" where
  "add_cookies [] req = Inr req"
| "add_cookies (c # cs) None = Inl NilPointerDereference"
| "add_cookies (c # cs) (Some req) = add_cookies cs (Some (AddCookie c req))"

text \<open>Lines 79 to 83 of \<open>request()\<close>: the assignment to \<open>r.URI\<close>.\<close>

definition resolve :: "Request \<Rightarrow> Request" where
  "resolve r =
     (case Query r of
        None \<Rightarrow> r\<lparr>URI := NewURI (path r)\<rparr>
      | Some q \<Rightarrow>
          if String q \<noteq> [] then r\<lparr>URI := NewURI (path r @ ''?'' @ String q)\<rparr>
          else r\<lparr>URI := NewURI (path r)\<rparr>)"

text \<open>
  \<open>request()\<close> writes \<open>r.URI\<close> before anything that can panic, so the model returns the
  request as it is left together with the outcome: a panic, or the transport request
  (possibly nil). A nil body parser makes \<open>r.BodyParser.Parse()\<close> panic. The header store is
  only read.
\<close>

definition request :: "net_http \<Rightarrow> store \<Rightarrow> Request \<Rightarrow> Request \<times> (panic + HttpRequest option)" where
  "request lib \<sigma> r =
     (let context = (case contextBuilder r of
                       Some cb \<Rightarrow> Build cb
                     | None \<Rightarrow> Build (NewContextBuilder (30 * Second)));
          r = resolve r
      in case BodyParser r of
           None \<Rightarrow> (r, Inl NilPointerDereference)
         | Some bp \<Rightarrow>
             (let req = NewRequestWithContext lib (Ctx context) (Method r)
                          (URI_String (URI r)) (Parse bp)
              in (r,
                  case add_headers lib (case Header r of None \<Rightarrow> [] | Some h \<Rightarrow> \<sigma> h) req of
                    Inl e \<Rightarrow> Inl e
                  | Inr req \<Rightarrow>
                      (case set_content_type lib bp req of
                         Inl e \<Rightarrow> Inl e
                       | Inr req \<Rightarrow> add_cookies (Cookies r) req))))"

section \<open>Send\<close>

text \<open>Modelled from the spec: \<open>Response\<close> is not in request.go. Section 3: a response is
  either the success variant, wrapping the transport's response and the original request, or
  the error variant, wrapping the original request and an error description.\<close>

datatype Response =
    SuccessResponse HttpResponse HttpRequest
  | ErrorResponse HttpRequest string

text \<open>Modelled from the spec: \<open>NewResponse\<close> is not in request.go. It builds the success
  variant.\<close>

definition NewResponse :: "HttpResponse \<Rightarrow> HttpRequest \<Rightarrow> Response" where
  "NewResponse response req = SuccessResponse response req"

text \<open>Modelled from the spec: \<open>NewErrorResponse\<close> is not in request.go. \<open>Send\<close> returns its
  two results, a response and an error, as its own. Section 7 has a transport failure recovered
  into the error variant with no error passed on, so the response is the error variant and the
  error is nil (\<open>None\<close>).\<close>

definition NewErrorResponse :: "HttpRequest \<Rightarrow> string \<Rightarrow> Response \<times> string option" where
  "NewErrorResponse req err = (ErrorResponse req err, None)"

text \<open>
  \<open>Send\<close> returns a response and an error (\<open>None\<close> is nil). \<open>Client.Do\<close> dereferences the
  request it is given, so a nil request panics there.
\<close>

definition Send :: "net_http \<Rightarrow> store \<Rightarrow> Request \<Rightarrow> Request \<times> (panic + Response \<times> string option)" where
  "Send lib \<sigma> r =
     (case request lib \<sigma> r of
        (r', Inl e) \<Rightarrow> (r', Inl e)
      | (r', Inr None) \<Rightarrow> (r', Inl NilPointerDereference)
      | (r', Inr (Some req)) \<Rightarrow>
          (case Do lib req of
             Inl err \<Rightarrow> (r', Inr (NewErrorResponse req err))
           | Inr response \<Rightarrow> (r', Inr (NewResponse response req, None))))"

section \<open>Vocabulary for the properties\<close>

text \<open>The string values a header set holds for a key, in enumeration order, keys compared in
  canonical form.\<close>

fun header_set_values :: "net_http \<Rightarrow> IHeader \<Rightarrow> string \<Rightarrow> string list" where
  "header_set_values lib [] key = []"
| "header_set_values lib ((k, AnyString s) # kvs) key =
     (if CanonicalHeaderKey lib k = CanonicalHeaderKey lib key
      then s # header_set_values lib kvs key
      else header_set_values lib kvs key)"
| "header_set_values lib ((k, AnyInt i) # kvs) key = header_set_values lib kvs key"

text \<open>The header set a request refers to, empty when it has none.\<close>

definition header_set :: "store \<Rightarrow> Request \<Rightarrow> IHeader" where
  "header_set \<sigma> r = (case Header r of None \<Rightarrow> [] | Some h \<Rightarrow> \<sigma> h)"

subsection \<open>Sample values\<close>

text \<open>
  Two instances of the transport library, after the scenario of section 8: a host that cannot
  be reached and an endpoint that answers 201 with the body it was sent. Both take header
  keys as canonical already and refuse a method that contains a space.
\<close>

definition unreachable_host :: net_http where
  "unreachable_host =
     \<lparr>CanonicalHeaderKey = (\<lambda>k. k),
      accepts = (\<lambda>method url. CHR '' '' \<notin> set method),
      Do = (\<lambda>req. Inl ''connection refused'')\<rparr>"

definition echo_endpoint :: net_http where
  "echo_endpoint =
     \<lparr>CanonicalHeaderKey = (\<lambda>k. k),
      accepts = (\<lambda>method url. CHR '' '' \<notin> set method),
      Do = (\<lambda>req. Inr \<lparr>StatusCode = 201, resp_Body = req_Body req\<rparr>)\<rparr>"

definition jsonParser :: IBodyParser where
  "jsonParser = \<lparr>Parse = ''{}'', ContentType = ''application/json''\<rparr>"

definition sample_store :: store where
  "sample_store =
     (\<lambda>a. [])(1 := [(''Content-Type'', AnyString ''text/plain'')],
              2 := [(''Accept'', AnyString ''text/xml'')])"

definition sample_post :: Request where
  "sample_post =
     NewRequest ''users'' [WithMethod ''POST'', WithHeader (Some 1), WithBody (Some jsonParser)]"

definition sample_post_assembled :: HttpRequest where
  "sample_post_assembled =
     \<lparr>req_Ctx = WithTimeout 30000000000, req_Method = ''POST'', req_URL = ''users'',
      req_Body = ''{}'', req_Header = (\<lambda>k. [])(''Content-Type'' := [''application/json'']),
      req_Cookies = []\<rparr>"

definition sample_get :: Request where
  "sample_get =
     NewRequest ''users'' [WithHeader (Some 1), WithQuery (Some \<lparr>String = ''page=2''\<rparr>)]"

definition sample_get_assembled :: HttpRequest where
  "sample_get_assembled =
     \<lparr>req_Ctx = WithTimeout 30000000000, req_Method = ''GET'', req_URL = ''users?page=2'',
      req_Body = [], req_Header = (\<lambda>k. [])(''Content-Type'' := [''text/plain'']),
      req_Cookies = []\<rparr>"

section \<open>Properties of SetBaseUrl\<close>

lemma HasPrefix_iff: "HasPrefix s p \<longleftrightarrow> (\<exists>t. s = p @ t)"
  unfolding HasPrefix_def
  by (metis append_eq_conv_conj append_take_drop_id le_add1 length_append)

lemma leading_slash: "(if HasPrefix s ''/'' then drop 1 s else s) = strip_leading_slash s"
  by (cases s) (auto simp: HasPrefix_def strip_leading_slash_def)

lemma trailing_slash:
  "(if HasSuffix b ''/'' then take (length b - 1) b else b) = strip_trailing_slash b"
proof (cases "b = []")
  case True
  then show ?thesis by (simp add: HasSuffix_def strip_trailing_slash_def)
next
  case False
  then obtain xs x where b: "b = xs @ [x]" by (metis rev_exhaust)
  show ?thesis by (simp add: b HasSuffix_def strip_trailing_slash_def)
qed

lemma SetBaseUrl_cases:
  "SetBaseUrl baseUrl r =
     (let p = strip_leading_slash (path r); b = strip_trailing_slash baseUrl
      in if p = b then Inl (SliceBoundsOutOfRange (length b + 1) (length b))
         else if HasPrefix p b then Inr (r\<lparr>path := b @ ''/'' @ drop (length b + 1) p\<rparr>)
         else Inr (r\<lparr>path := b @ ''/'' @ p\<rparr>))"
proof -
  define p where "p = strip_leading_slash (path r)"
  define b where "b = strip_trailing_slash baseUrl"
  have *: "SetBaseUrl baseUrl r =
     (if HasPrefix p b
         then (case slice_from p (length b + 1) of
                 Inl e \<Rightarrow> Inl e
               | Inr p' \<Rightarrow> Inr (r\<lparr>path := b @ ''/'' @ p'\<rparr>))
         else Inr (r\<lparr>path := b @ ''/'' @ p\<rparr>))"
    unfolding SetBaseUrl_def leading_slash trailing_slash p_def b_def by (simp add: Let_def)
  show ?thesis
  proof (cases "HasPrefix p b")
    case False
    then have "p \<noteq> b" by (auto simp: HasPrefix_def)
    with False * show ?thesis by (simp add: p_def[symmetric] b_def[symmetric] Let_def)
  next
    case True
    then obtain t where t: "p = b @ t" by (auto simp: HasPrefix_iff)
    show ?thesis
    proof (cases "t = []")
      case True
      with t * show ?thesis
        by (simp add: p_def[symmetric] b_def[symmetric] Let_def HasPrefix_def slice_from_def)
    next
      case False
      then have len: "length b + 1 \<le> length p" using t by (cases t) auto
      from False t have "p \<noteq> b" by simp
      with * len \<open>HasPrefix p b\<close> show ?thesis
        by (simp add: p_def[symmetric] b_def[symmetric] Let_def slice_from_def)
    qed
  qed
qed

lemma SetBaseUrl_panics_iff:
  "(\<exists>e. SetBaseUrl baseUrl r = Inl e) \<longleftrightarrow>
     strip_leading_slash (path r) = strip_trailing_slash baseUrl"
  by (simp add: SetBaseUrl_cases Let_def)

lemma SetBaseUrl_agrees_with_spec:
  assumes "\<not> HasPrefix (strip_leading_slash (path r)) (strip_trailing_slash baseUrl)
           \<or> HasPrefix (strip_leading_slash (path r)) (strip_trailing_slash baseUrl @ ''/'')"
  shows "SetBaseUrl baseUrl r = Inr (r\<lparr>path := SetBaseUrl_spec baseUrl (path r)\<rparr>)"
proof -
  define p where "p = strip_leading_slash (path r)"
  define b where "b = strip_trailing_slash baseUrl"
  from assms consider "\<not> HasPrefix p b" | t where "p = b @ ''/'' @ t"
    unfolding p_def b_def HasPrefix_iff by auto
  then show ?thesis
  proof cases
    case 1
    then have "p \<noteq> b" by (auto simp: HasPrefix_def)
    with 1 show ?thesis
      by (simp add: SetBaseUrl_cases SetBaseUrl_spec_def Let_def p_def[symmetric] b_def[symmetric])
  next
    case 2
    then have pre: "HasPrefix p b" "p \<noteq> b" by (auto simp: HasPrefix_iff)
    have e1: "strip_leading_slash (drop (length b) p) = t"
      using 2 by (simp add: strip_leading_slash_def)
    have e2: "drop (Suc (length b)) p = t"
      using 2 by simp
    from pre show ?thesis
      by (simp add: SetBaseUrl_cases SetBaseUrl_spec_def Let_def p_def[symmetric] b_def[symmetric]
          e1 e2)
  qed
qed

lemma SetBaseUrl_idempotent_if:
  assumes first: "SetBaseUrl baseUrl r = Inr r'"
    and ne: "strip_trailing_slash baseUrl \<noteq> []"
    and hd: "hd (strip_trailing_slash baseUrl) \<noteq> CHR ''/''"
  shows "SetBaseUrl baseUrl r' = Inr r'"
proof -
  define b where "b = strip_trailing_slash baseUrl"
  from first obtain t where p': "path r' = b @ ''/'' @ t" and r': "r' = r\<lparr>path := b @ ''/'' @ t\<rparr>"
    by (auto simp: SetBaseUrl_cases Let_def b_def split: if_splits)
  from ne hd obtain c cs where b: "b = c # cs" "c \<noteq> CHR ''/''"
    unfolding b_def by (cases "strip_trailing_slash baseUrl") auto
  have s: "strip_leading_slash (path r') = b @ ''/'' @ t"
    using b by (simp add: p' strip_leading_slash_def)
  have "HasPrefix (b @ ''/'' @ t) b" by (simp add: HasPrefix_iff)
  moreover have "b @ ''/'' @ t \<noteq> b" by simp
  ultimately have "SetBaseUrl baseUrl r' = Inr (r'\<lparr>path := b @ ''/'' @ t\<rparr>)"
    by (simp add: SetBaseUrl_cases Let_def s b_def[symmetric])
  then show ?thesis by (simp add: r')
qed

lemma path_NewRequest: "path (NewRequest p []) = p"
  by (simp add: NewRequest_def zero_Request_def)

text \<open>
  C1 (idempotence of \<open>SetBaseUrl\<close>). The code does not have the property. With the path
  \<open>users\<close> and the base \<open>/api\<close> the first call stores \<open>/api/users\<close>; the second call
  strips the leading slash of that path, no longer finds the base as a prefix of
  \<open>api/users\<close>, and stores \<open>/api/api/users\<close>. (Lemma \<open>SetBaseUrl_idempotent_if\<close> above
  gives the bases for which a second call changes nothing.)
\<close>

theorem SetBaseUrl_twice_doubles_rooted_base:
  "map_sum id path (SetBaseUrl ''/api'' (NewRequest ''users'' [])) = Inr ''/api/users'' \<and>
   map_sum id path (SetBaseUrl_twice ''/api'' (NewRequest ''users'' [])) = Inr ''/api/api/users''"
  by (simp add: SetBaseUrl_twice_def SetBaseUrl_def Let_def path_NewRequest HasPrefix_def HasSuffix_def slice_from_def)

text \<open>
  C8 (the merge algorithm). The code follows the four steps only while a separator follows the
  duplicated prefix (lemma \<open>SetBaseUrl_agrees_with_spec\<close>). With the path \<open>/v1\<close> and the
  base \<open>v1/\<close> the stripped path equals the stripped base, step 3 slices past the end of the
  path and the call panics where the four steps give \<open>v1/\<close>; with the path
  \<open>apiv2/users\<close> and the base \<open>api\<close> step 3 removes the byte \<open>v\<close>, which is not a
  separator.
\<close>

theorem SetBaseUrl_departs_from_merge:
  "SetBaseUrl ''v1/'' (NewRequest ''/v1'' []) = Inl (SliceBoundsOutOfRange 3 2) \<and>
   SetBaseUrl_spec ''v1/'' ''/v1'' = ''v1/'' \<and>
   map_sum id path (SetBaseUrl ''api'' (NewRequest ''apiv2/users'' [])) = Inr ''api/2/users'' \<and>
   SetBaseUrl_spec ''api'' ''apiv2/users'' = ''api/v2/users''"
  by (simp add: SetBaseUrl_def SetBaseUrl_spec_def Let_def path_NewRequest HasPrefix_def HasSuffix_def slice_from_def
      strip_leading_slash_def strip_trailing_slash_def)

text \<open>
  C9 (totality of \<open>SetBaseUrl\<close>). The code is not total: when the stripped path equals the
  stripped base, \<open>r.path[len(baseUrl)+1:]\<close> asks for index \<open>len + 1\<close> of a string of
  length \<open>len\<close> and panics. Here both are \<open>api\<close>. (Lemma \<open>SetBaseUrl_panics_iff\<close> shows
  these are the only inputs on which the call panics.)
\<close>

theorem SetBaseUrl_slice_out_of_range:
  "SetBaseUrl ''api'' (NewRequest ''api'' []) = Inl (SliceBoundsOutOfRange 4 3)"
  by (simp add: SetBaseUrl_def Let_def path_NewRequest HasPrefix_def HasSuffix_def slice_from_def)

section \<open>Properties of MergeHeader and SetContextBuilder\<close>

text \<open>
  C10 (nil arguments). \<open>SetContextBuilder\<close> with a nil context builder and \<open>MergeHeader\<close>
  with a nil header set return the request they were given, with every field and the store of
  header sets unchanged.
\<close>

theorem nil_arguments_are_noops:
  "SetContextBuilder None r = r \<and> MergeHeader None (r, \<sigma>) = (r, \<sigma>)"
  by (simp add: SetContextBuilder_def MergeHeader_def)

text \<open>
  C6 (\<open>MergeHeader\<close>). For a non-nil header set \<open>h\<close>: a request without a header set gets
  the reference \<open>h\<close> itself and no object in the store changes; a request that refers to a
  set \<open>e\<close> keeps referring to \<open>e\<close>, and the object at \<open>e\<close> becomes the merge of its
  old content with the content of \<open>h\<close>.
\<close>

theorem MergeHeader_semantics:
  "(Header r = None \<longrightarrow> MergeHeader (Some h) (r, \<sigma>) = (r\<lparr>Header := Some h\<rparr>, \<sigma>)) \<and>
   (\<forall>e. Header r = Some e \<longrightarrow>
      MergeHeader (Some h) (r, \<sigma>) = (r, \<sigma>(e := Merge (\<sigma> e) (\<sigma> h))))"
  by (simp add: MergeHeader_def)

lemmas sample_defs =
  sample_post_def sample_get_def sample_post_assembled_def sample_get_assembled_def
  sample_store_def jsonParser_def dumpBody_def GET_def unreachable_host_def echo_endpoint_def
  NewRequest_def zero_Request_def WithMethod_def WithHeader_def WithBody_def WithQuery_def

lemmas request_defs =
  request_def resolve_def NewContextBuilder_def Second_def NewRequestWithContext_def
  set_content_type_def Header_Add_def Header_Set_def Let_def

lemma sample_post_request:
  "snd (request unreachable_host sample_store sample_post) = Inr (Some sample_post_assembled)"
  by (simp add: sample_defs request_defs)

lemma sample_post_request_echo:
  "snd (request echo_endpoint sample_store sample_post) = Inr (Some sample_post_assembled)"
  by (simp add: sample_defs request_defs)

lemma sample_get_request:
  "snd (request unreachable_host sample_store sample_get) = Inr (Some sample_get_assembled)"
  by (simp add: sample_defs request_defs)

theorem MergeHeader_semantics_witness:
  "Header (NewRequest ''users'' []) = None \<and>
   MergeHeader (Some 2) (NewRequest ''users'' [], sample_store) =
     ((NewRequest ''users'' [])\<lparr>Header := Some 2\<rparr>, sample_store) \<and>
   Header sample_post = Some 1 \<and>
   MergeHeader (Some 2) (sample_post, sample_store) =
     (sample_post, sample_store(1 := Merge (sample_store 1) (sample_store 2)))"
  using MergeHeader_semantics [of "NewRequest ''users'' []" 2 sample_store]
    MergeHeader_semantics [of sample_post 2 sample_store]
  by (simp add: sample_defs)

section \<open>Properties of the assembly\<close>

lemma add_headers_nil_request:
  "add_headers lib kvs None = (if kvs = [] then Inr None else Inl NilPointerDereference)"
  by (cases kvs) auto

lemma add_headers_values:
  "add_headers lib kvs (Some req) = Inr out \<Longrightarrow>
     \<exists>req'. out = Some req' \<and>
       Header_Values lib req' key = Header_Values lib req key @ header_set_values lib kvs key \<and>
       req_Ctx req' = req_Ctx req \<and> req_Method req' = req_Method req \<and>
       req_URL req' = req_URL req \<and> req_Body req' = req_Body req \<and>
       req_Cookies req' = req_Cookies req"
proof (induction kvs arbitrary: req)
  case Nil
  then show ?case by auto
next
  case (Cons kv kvs)
  obtain k v where kv: "kv = (k, v)" by (cases kv)
  show ?case
  proof (cases v)
    case (AnyString s)
    with Cons.prems kv have "add_headers lib kvs (Some (Header_Add lib k s req)) = Inr out"
      by simp
    from Cons.IH[OF this] obtain req' where
      "out = Some req'"
      "Header_Values lib req' key =
         Header_Values lib (Header_Add lib k s req) key @ header_set_values lib kvs key"
      "req_Ctx req' = req_Ctx (Header_Add lib k s req)"
      "req_Method req' = req_Method (Header_Add lib k s req)"
      "req_URL req' = req_URL (Header_Add lib k s req)"
      "req_Body req' = req_Body (Header_Add lib k s req)"
      "req_Cookies req' = req_Cookies (Header_Add lib k s req)"
      by blast
    then show ?thesis
      by (auto simp: kv AnyString Header_Add_def Header_Values_def)
  next
    case (AnyInt i)
    with Cons.prems kv show ?thesis by simp
  qed
qed

lemma add_cookies_Some:
  "add_cookies cs (Some req) = Inr (Some (req\<lparr>req_Cookies := req_Cookies req @ cs\<rparr>))"
  by (induction cs arbitrary: req) (simp_all add: AddCookie_def)

lemma add_cookies_result:
  "add_cookies cs req = Inr (Some req') \<Longrightarrow>
     \<exists>q. req = Some q \<and> req' = q\<lparr>req_Cookies := req_Cookies q @ cs\<rparr>"
  by (cases req; cases cs) (auto simp: add_cookies_Some)

lemma set_content_type_result:
  "set_content_type lib bp req = Inr (Some req') \<Longrightarrow>
     \<exists>q. req = Some q \<and>
       req' = (if ContentType bp \<noteq> [] then Header_Set lib ''Content-Type'' (ContentType bp) q else q)"
  by (cases req) (auto simp: set_content_type_def split: if_splits)

lemma fst_request: "fst (request lib \<sigma> r) = resolve r"
  by (simp add: request_def Let_def split: option.splits)

lemma resolve_fields:
  "path (resolve r) = path r" "Method (resolve r) = Method r" "Header (resolve r) = Header r"
  "Query (resolve r) = Query r" "BodyParser (resolve r) = BodyParser r"
  "contextBuilder (resolve r) = contextBuilder r" "Cookies (resolve r) = Cookies r"
  by (simp_all add: resolve_def split: option.splits)



text \<open>
  C3 (content-type precedence). Whenever the assembly yields a transport request for a request
  with body parser \<open>bp\<close>: if \<open>bp\<close> reports a non-empty content-type, that content-type is
  the only value of the transport request's Content-Type header, whatever the header set
  holds for the key; if \<open>bp\<close> reports the empty string, the header's values are exactly the
  ones the header set holds for the key.
\<close>

theorem content_type_precedence:
  assumes bp: "BodyParser r = Some bp"
    and req: "snd (request lib \<sigma> r) = Inr (Some req)"
  shows "(ContentType bp \<noteq> [] \<longrightarrow>
            Header_Values lib req ''Content-Type'' = [ContentType bp] \<and>
            Header_Get lib req ''Content-Type'' = ContentType bp) \<and>
         (ContentType bp = [] \<longrightarrow>
            Header_Values lib req ''Content-Type'' =
              header_set_values lib (header_set \<sigma> r) ''Content-Type'')"
proof -
  define req0 where "req0 = NewRequestWithContext lib
      (Ctx (case contextBuilder r of Some cb \<Rightarrow> Build cb
            | None \<Rightarrow> Build (NewContextBuilder (30 * Second))))
      (Method (resolve r)) (URI_String (URI (resolve r))) (Parse bp)"
  from req bp obtain req1 req2 where
    h: "add_headers lib (header_set \<sigma> r) req0 = Inr req1"
    and c: "set_content_type lib bp req1 = Inr req2"
    and k: "add_cookies (Cookies r) req2 = Inr (Some req)"
    by (auto simp: request_def Let_def resolve_fields header_set_def req0_def split: sum.splits)
  from add_cookies_result[OF k] obtain q2 where
    q2: "req2 = Some q2" "req = q2\<lparr>req_Cookies := req_Cookies q2 @ Cookies r\<rparr>" by blast
  from set_content_type_result[OF c[unfolded q2(1)]] obtain q1 where
    q1: "req1 = Some q1"
      "q2 = (if ContentType bp \<noteq> [] then Header_Set lib ''Content-Type'' (ContentType bp) q1 else q1)"
    by blast
  obtain q0 where q0: "req0 = Some q0"
    using h q1(1) by (cases req0) (auto simp: add_headers_nil_request split: if_splits)
  have empty: "Header_Values lib q0 ''Content-Type'' = []"
    using q0 by (auto simp: req0_def NewRequestWithContext_def Let_def Header_Values_def
        split: if_splits)
  from add_headers_values[OF h[unfolded q0], of "''Content-Type''"] q1(1)
  have v1: "Header_Values lib q1 ''Content-Type'' =
      header_set_values lib (header_set \<sigma> r) ''Content-Type''"
    by (auto simp: empty)
  show ?thesis
    using v1 by (simp add: q2(2) q1(2) Header_Get_def Header_Values_def Header_Set_def)
qed

theorem content_type_precedence_witness:
  "BodyParser sample_post = Some jsonParser \<and>
   snd (request unreachable_host sample_store sample_post) = Inr (Some sample_post_assembled) \<and>
   ContentType jsonParser \<noteq> [] \<and>
   header_set_values unreachable_host (header_set sample_store sample_post) ''Content-Type'' =
     [''text/plain''] \<and>
   Header_Get unreachable_host sample_post_assembled ''Content-Type'' = ''application/json'' \<and>
   BodyParser sample_get = Some dumpBody \<and>
   snd (request unreachable_host sample_store sample_get) = Inr (Some sample_get_assembled) \<and>
   ContentType dumpBody = [] \<and>
   Header_Values unreachable_host sample_get_assembled ''Content-Type'' = [''text/plain'']"
proof -
  have b1: "BodyParser sample_post = Some jsonParser"
    by (simp add: sample_defs)
  have b2: "BodyParser sample_get = Some dumpBody"
    by (simp add: sample_defs)
  have hs: "header_set_values unreachable_host (header_set sample_store sample_post)
      ''Content-Type'' = [''text/plain'']"
    "header_set_values unreachable_host (header_set sample_store sample_get)
      ''Content-Type'' = [''text/plain'']"
    by (simp_all add: sample_defs header_set_def)
  have ct: "ContentType jsonParser \<noteq> []" "ContentType dumpBody = []"
    by (simp_all add: jsonParser_def dumpBody_def)
  show ?thesis
    using content_type_precedence [OF b1 sample_post_request]
      content_type_precedence [OF b2 sample_get_request]
    by (simp add: b1 b2 hs ct jsonParser_def sample_post_request sample_get_request)
qed

text \<open>
  C4 (query-append law). After the assembly the resolved URI is the stored path alone when the
  query set is absent or its string form is empty, and the stored path, a question mark and the
  string form otherwise; the transport request, when one is built, is given that string as its
  URL.
\<close>

theorem query_append:
  "(Query r = None \<longrightarrow> URI_String (URI (fst (request lib \<sigma> r))) = path r) \<and>
   (\<forall>q. Query r = Some q \<and> String q = [] \<longrightarrow>
        URI_String (URI (fst (request lib \<sigma> r))) = path r) \<and>
   (\<forall>q. Query r = Some q \<and> String q \<noteq> [] \<longrightarrow>
        URI_String (URI (fst (request lib \<sigma> r))) = path r @ ''?'' @ String q) \<and>
   (\<forall>req. snd (request lib \<sigma> r) = Inr (Some req) \<longrightarrow>
        req_URL req = URI_String (URI (fst (request lib \<sigma> r))))"
proof -
  have "req_URL req = URI_String (URI (resolve r))"
    if "snd (request lib \<sigma> r) = Inr (Some req)" for req
  proof -
    from that obtain bp where bp: "BodyParser r = Some bp"
      by (cases "BodyParser r") (auto simp: request_def Let_def resolve_fields)
    define req0 where "req0 = NewRequestWithContext lib
      (Ctx (case contextBuilder r of Some cb \<Rightarrow> Build cb
            | None \<Rightarrow> Build (NewContextBuilder (30 * Second))))
      (Method (resolve r)) (URI_String (URI (resolve r))) (Parse bp)"
    from that bp obtain req1 req2 where
      h: "add_headers lib (header_set \<sigma> r) req0 = Inr req1"
      and c: "set_content_type lib bp req1 = Inr req2"
      and k: "add_cookies (Cookies r) req2 = Inr (Some req)"
      by (auto simp: request_def Let_def resolve_fields header_set_def req0_def split: sum.splits)
    from add_cookies_result[OF k] obtain q2 where
      q2: "req2 = Some q2" "req = q2\<lparr>req_Cookies := req_Cookies q2 @ Cookies r\<rparr>" by blast
    from set_content_type_result[OF c[unfolded q2(1)]] obtain q1 where
      q1: "req1 = Some q1"
        "q2 = (if ContentType bp \<noteq> [] then Header_Set lib ''Content-Type'' (ContentType bp) q1 else q1)"
      by blast
    obtain q0 where q0: "req0 = Some q0"
      using h q1(1) by (cases req0) (auto simp: add_headers_nil_request split: if_splits)
    have u0: "req_URL q0 = URI_String (URI (resolve r))"
      using q0 by (auto simp: req0_def NewRequestWithContext_def Let_def split: if_splits)
    from add_headers_values[OF h[unfolded q0], of "''x''"] q1(1)
    have "req_URL q1 = req_URL q0" by auto
    with u0 show ?thesis by (simp add: q2(2) q1(2) Header_Set_def)
  qed
  then show ?thesis
    by (auto simp: fst_request resolve_def)
qed

theorem query_append_witness:
  "Query sample_post = None \<and>
   URI_String (URI (fst (request unreachable_host sample_store sample_post))) = ''users'' \<and>
   Query (NewRequest ''users'' [WithQuery (Some \<lparr>String = []\<rparr>)]) = Some \<lparr>String = []\<rparr> \<and>
   URI_String (URI (fst (request unreachable_host sample_store
      (NewRequest ''users'' [WithQuery (Some \<lparr>String = []\<rparr>)])))) = ''users'' \<and>
   Query sample_get = Some \<lparr>String = ''page=2''\<rparr> \<and>
   URI_String (URI (fst (request unreachable_host sample_store sample_get))) = ''users?page=2'' \<and>
   snd (request unreachable_host sample_store sample_get) = Inr (Some sample_get_assembled) \<and>
   req_URL sample_get_assembled = ''users?page=2''"
proof -
  have q: "Query sample_post = None"
    "Query (NewRequest ''users'' [WithQuery (Some \<lparr>String = []\<rparr>)]) = Some \<lparr>String = []\<rparr>"
    "Query sample_get = Some \<lparr>String = ''page=2''\<rparr>"
    by (simp_all add: sample_defs)
  have p: "path sample_post = ''users''"
    "path (NewRequest ''users'' [WithQuery (Some \<lparr>String = []\<rparr>)]) = ''users''"
    "path sample_get = ''users''"
    by (simp_all add: sample_defs)
  show ?thesis
    using query_append [of sample_post unreachable_host sample_store]
      query_append [of "NewRequest ''users'' [WithQuery (Some \<lparr>String = []\<rparr>)]"
        unreachable_host sample_store]
      query_append [of sample_get unreachable_host sample_store]
    by (simp add: q p sample_get_request)
qed

text \<open>
  C5 (construction defaults). \<open>NewRequest\<close> with no options yields the method GET, the
  no-op body parser (empty body, empty content-type), no header set, no query set, no context
  builder and no cookies; assembling that request hands the library a context with a timeout
  of 30 seconds, the method GET, the path and an empty body, and adds no header and no cookie
  to what the library returns.
\<close>

theorem construction_defaults:
  "NewRequest p [] =
     \<lparr>path = p, URI = NewURI [], Method = GET, Header = None, Query = None,
      BodyParser = Some dumpBody, contextBuilder = None, Cookies = []\<rparr> \<and>
   GET = ''GET'' \<and> Parse dumpBody = [] \<and> ContentType dumpBody = [] \<and>
   snd (request lib \<sigma> (NewRequest p [])) =
     Inr (NewRequestWithContext lib (WithTimeout (30 * 1000000000)) ''GET'' p [])"
  by (simp add: NewRequest_def zero_Request_def GET_def dumpBody_def request_def resolve_def
      NewContextBuilder_def Second_def set_content_type_def Let_def)









section \<open>Properties of Send\<close>

text \<open>
  C2 (dispatch outcome), as amended: for every request whose assembly yields a transport
  request, \<open>Send\<close> returns exactly one response and a nil error: the error variant carrying
  the transport request and the failure description when the round trip fails, the success
  variant carrying the transport's response (whatever its status code) and the transport
  request when it succeeds.
\<close>

theorem Send_outcome:
  assumes "snd (request lib \<sigma> r) = Inr (Some req)"
  shows "snd (Send lib \<sigma> r) =
           Inr (case Do lib req of
                  Inl err \<Rightarrow> ErrorResponse req err
                | Inr response \<Rightarrow> SuccessResponse response req,
                None)"
  using assms
  by (cases "request lib \<sigma> r")
     (auto simp: Send_def NewErrorResponse_def NewResponse_def split: sum.splits)

theorem Send_outcome_witness:
  "snd (request unreachable_host sample_store sample_post) = Inr (Some sample_post_assembled) \<and>
   snd (Send unreachable_host sample_store sample_post) =
     Inr (ErrorResponse sample_post_assembled ''connection refused'', None) \<and>
   snd (request echo_endpoint sample_store sample_post) = Inr (Some sample_post_assembled) \<and>
   snd (Send echo_endpoint sample_store sample_post) =
     Inr (SuccessResponse \<lparr>StatusCode = 201, resp_Body = ''{}''\<rparr> sample_post_assembled, None)"
proof -
  have d: "Do unreachable_host sample_post_assembled = Inl ''connection refused''"
    "Do echo_endpoint sample_post_assembled = Inr \<lparr>StatusCode = 201, resp_Body = ''{}''\<rparr>"
    by (simp_all add: unreachable_host_def echo_endpoint_def sample_post_assembled_def)
  show ?thesis
    using Send_outcome [OF sample_post_request] Send_outcome [OF sample_post_request_echo]
    by (simp add: d sample_post_request sample_post_request_echo)
qed

text \<open>
  C2 as stated speaks of every request. A request whose body parser is nil makes the assembly
  panic in \<open>r.BodyParser.Parse()\<close>, and \<open>Send\<close> returns neither variant.
\<close>

theorem Send_without_body_parser:
  "snd (Send unreachable_host sample_store (sample_post\<lparr>BodyParser := None\<rparr>)) =
     Inl NilPointerDereference"
  by (simp add: Send_def request_def resolve_def Let_def split: option.splits)

end
